theory Spec2Isabelle
  imports Main
begin

section \<open>Chat middleware: sessions, the socket protocol and the sweep\<close>

text \<open>
  A shallow embedding of the chat middleware: the Prisma store of sessions and messages
  (\<^verbatim>\<open>prisma.chatSession\<close>, \<^verbatim>\<open>prisma.chatMessage\<close>), the cleanup job
  (\<^verbatim>\<open>services/cleanupJob.ts\<close>), the socket manager
  (\<^verbatim>\<open>services/socketManager.ts\<close>), the n8n client (\<^verbatim>\<open>services/n8nService.ts\<close>)
  and the heartbeat route of \<^verbatim>\<open>server.ts\<close>.

  Conventions of the model.
  \<^item> Instants (\<^verbatim>\<open>Date\<close>) are integers, milliseconds since the epoch. Every reading of
    the clock (\<^verbatim>\<open>Date.now()\<close>, \<^verbatim>\<open>new Date()\<close>, a column default) is an argument
    of the function that reads it.
  \<^item> Identifiers chosen by the database are arguments too.
  \<^item> Strings are \<^typ>\<open>string\<close>: text whose code units are below 256, a \<^typ>\<open>char\<close>
    being one code unit.
  \<^item> An \<^verbatim>\<open>async\<close> handler runs from its first statement to its last without
    another handler in between.
  \<^item> The store answers every request; the errors it returns are the ones its contents
    and its arguments decide (no record to update, an identifier already in use, an
    invalid date in a filter).
\<close>

subsection \<open>The store\<close>

datatype chat_session_status = ACTIVE | INACTIVE | CLOSED

datatype message_role = USER | BOT | SYSTEM

text \<open>
  The rows of the two tables. The field \<^verbatim>\<open>id\<close> and the field \<^verbatim>\<open>created_at\<close>
  exist in both tables and carry a suffix here. The free-form \<^verbatim>\<open>metadata\<close> column of a
  session is never read or written by the modelled code and is left out.
\<close>

record ChatSession =
  id_cs :: string
  visitor_id :: string
  status :: chat_session_status
  last_active_at :: int
  created_at_cs :: int

record ChatMessage =
  id_cm :: string
  session_id :: string
  role :: message_role
  content :: string
  created_at_cm :: int

record store =
  chat_session :: "ChatSession list"
  chat_message :: "ChatMessage list"

datatype db_error = RecordNotFound | UniqueConstraint

text \<open>\<^verbatim>\<open>prisma.chatSession.findUnique({ where: { id } })\<close>\<close>

definition chatSession_findUnique :: "store \<Rightarrow> string \<Rightarrow> ChatSession option" where
  "chatSession_findUnique st i = find (\<lambda>s. id_cs s = i) (chat_session st)"

text \<open>
  The \<^verbatim>\<open>data\<close> of an update: the modelled code writes \<^verbatim>\<open>status\<close>,
  \<^verbatim>\<open>last_active_at\<close> or both.
\<close>

definition set_data :: "chat_session_status option \<Rightarrow> int option \<Rightarrow> ChatSession \<Rightarrow> ChatSession" where
  "set_data ds dl s =
     s\<lparr>status := (case ds of None \<Rightarrow> status s | Some v \<Rightarrow> v),
       last_active_at := (case dl of None \<Rightarrow> last_active_at s | Some t \<Rightarrow> t)\<rparr>"

text \<open>
  \<^verbatim>\<open>prisma.chatSession.update({ where: { id }, data })\<close>: returns the updated row, and
  throws when no row has the identifier.
\<close>

definition chatSession_update ::
  "store \<Rightarrow> string \<Rightarrow> chat_session_status option \<Rightarrow> int option \<Rightarrow> db_error + ChatSession \<times> store" where
  "chatSession_update st i ds dl =
     (case chatSession_findUnique st i of
        None \<Rightarrow> Inl RecordNotFound
      | Some s \<Rightarrow>
          Inr (set_data ds dl s,
               st\<lparr>chat_session := map (\<lambda>x. if id_cs x = i then set_data ds dl x else x) (chat_session st)\<rparr>))"


subsection \<open>The cleanup job\<close>
















subsection \<open>Messages and history\<close>

text \<open>
  \<^verbatim>\<open>prisma.chatMessage.create({ data: { session_id, role, content } })\<close>: the row gets
  an identifier and a creation instant from the database.
\<close>

definition chatMessage_create ::
  "store \<Rightarrow> string \<Rightarrow> int \<Rightarrow> string \<Rightarrow> message_role \<Rightarrow> string \<Rightarrow> ChatMessage \<times> store" where
  "chatMessage_create st new_id now sid r c =
     (let m = \<lparr>id_cm = new_id, session_id = sid, role = r, content = c, created_at_cm = now\<rparr>
      in (m, st\<lparr>chat_message := chat_message st @ [m]\<rparr>))"

text \<open>
  \<^verbatim>\<open>prisma.chatMessage.findMany({ where: { session_id }, orderBy: { created_at: 'asc' }, take })\<close>:
  the ascending order is a stable sort of the rows in the order they were inserted;
  \<^verbatim>\<open>take\<close> is optional and keeps the first rows of that order.
\<close>

definition chatMessage_findMany :: "store \<Rightarrow> string \<Rightarrow> nat option \<Rightarrow> ChatMessage list" where
  "chatMessage_findMany st sid take_opt =
     (let rows = sort_key created_at_cm (filter (\<lambda>m. session_id m = sid) (chat_message st))
      in case take_opt of None \<Rightarrow> rows | Some n \<Rightarrow> take n rows)"

text \<open>
  The message as the clients receive it. \<^verbatim>\<open>createdAt\<close> is the ISO rendering of the
  instant in the source and the instant itself here.
\<close>

record ChatMessageDto =
  id_dto :: string
  sender :: message_role
  content_dto :: string
  createdAt :: int

definition mapMessage :: "ChatMessage \<Rightarrow> ChatMessageDto" where
  "mapMessage message =
     \<lparr>id_dto = id_cm message, sender = role message, content_dto = content message,
      createdAt = created_at_cm message\<rparr>"

definition getHistory :: "store \<Rightarrow> string \<Rightarrow> nat \<Rightarrow> ChatMessageDto list" where
  "getHistory st sessionId limit = map mapMessage (chatMessage_findMany st sessionId (Some limit))"

text \<open>\<^verbatim>\<open>getHistory(sessionId)\<close> with the default \<^verbatim>\<open>limit = 100\<close>.\<close>

definition getHistory_default :: "store \<Rightarrow> string \<Rightarrow> ChatMessageDto list" where
  "getHistory_default st sessionId = getHistory st sessionId 100"

subsection \<open>Session resolution\<close>

text \<open>
  \<^verbatim>\<open>prisma.chatSession.findFirst({ where: { visitor_id, status: { not: CLOSED } },
  orderBy: { created_at: 'desc' } })\<close>: the first row of the descending order, if any.
\<close>

definition chatSession_findFirst :: "store \<Rightarrow> string \<Rightarrow> ChatSession option" where
  "chatSession_findFirst st visitorId =
     (case sort_key (\<lambda>s. - created_at_cs s)
             (filter (\<lambda>s. visitor_id s = visitorId \<and> status s \<noteq> CLOSED) (chat_session st)) of
        [] \<Rightarrow> None
      | s # _ \<Rightarrow> Some s)"

text \<open>
  Modelled from the spec: the Prisma schema (\<^verbatim>\<open>prisma/schema.prisma\<close>) with the column
  defaults of a session is missing. In
  \<^verbatim>\<open>prisma.chatSession.create({ data: { visitor_id, status } })\<close> the identifier, the
  creation instant and the last-activity instant are column defaults; by the spec a new
  session has last-activity = now and a unique identifier, so both instants are the instant
  of the creation, and an identifier already in the table is refused.
\<close>

definition chatSession_create ::
  "store \<Rightarrow> string \<Rightarrow> int \<Rightarrow> string \<Rightarrow> chat_session_status \<Rightarrow> db_error + ChatSession \<times> store" where
  "chatSession_create st new_id now visitorId st0 =
     (if new_id \<in> set (map id_cs (chat_session st)) then Inl UniqueConstraint
      else let s = \<lparr>id_cs = new_id, visitor_id = visitorId, status = st0,
                       last_active_at = now, created_at_cs = now\<rparr>
           in Inr (s, st\<lparr>chat_session := chat_session st @ [s]\<rparr>))"

text \<open>
  The truth value JavaScript gives an optional string: \<^verbatim>\<open>undefined\<close> and the empty
  string are false.
\<close>

definition truthy :: "string option \<Rightarrow> bool" where
  "truthy x = (case x of None \<Rightarrow> False | Some s \<Rightarrow> s \<noteq> [])"

definition ensureSession ::
  "store \<Rightarrow> string \<Rightarrow> int \<Rightarrow> string \<Rightarrow> string option \<Rightarrow> db_error + ChatSession \<times> store" where
  "ensureSession st new_id now visitorId requestedSessionId =
     (case (case requestedSessionId of
              None \<Rightarrow> None
            | Some rid \<Rightarrow>
                if rid = [] then None
                else (case chatSession_findUnique st rid of
                        Some session \<Rightarrow> if status session \<noteq> CLOSED then Some session else None
                      | None \<Rightarrow> None)) of
        Some session \<Rightarrow> Inr (session, st)
      | None \<Rightarrow>
          (case chatSession_findFirst st visitorId of
             Some existing \<Rightarrow> Inr (existing, st)
           | None \<Rightarrow> chatSession_create st new_id now visitorId ACTIVE))"

subsection \<open>The n8n client\<close>

text \<open>
  The body of a response as axios hands it over: a parsed JSON value, or the text of the
  body as a string. An object is the list of its properties, each name once. Numbers are
  integers in the model; no modelled function computes with them.
\<close>

datatype json =
    JNull
  | JBool bool
  | JNum int
  | JStr string
  | JArr "json list"
  | JObj "(string \<times> json) list"

record N8nHistoryEntry =
  sender_he :: message_role
  content_he :: string
  createdAt_he :: int

record N8nPayload =
  sessionId_p :: string
  message_p :: string
  history_p :: "N8nHistoryEntry list"
  metadata_p :: "json option"

text \<open>The object posted to the webhook.\<close>

record n8n_body =
  sessionId_b :: string
  chatInput :: string
  history_b :: "N8nHistoryEntry list"
  metadata_b :: json

text \<open>
  \<^verbatim>\<open>await axios.post(...)\<close> either throws (timeout, network error, a status outside
  2xx) or resolves with the body of the response.
\<close>

datatype axios_result = Rejected | Resolved json

text \<open>
  \<^verbatim>\<open>data?.name\<close>: \<^verbatim>\<open>undefined\<close> (here \<^const>\<open>None\<close>) unless \<^verbatim>\<open>data\<close> is an
  object with that property. None of the three names read by the client is a property of a
  string, a number, a boolean or an array.
\<close>

definition property :: "json \<Rightarrow> string \<Rightarrow> json option" where
  "property data name = (case data of JObj kvs \<Rightarrow> map_of kvs name | _ \<Rightarrow> None)"

text \<open>\<^verbatim>\<open>a ?? b\<close>: \<^verbatim>\<open>b\<close> when \<^verbatim>\<open>a\<close> is \<^verbatim>\<open>undefined\<close> or \<^verbatim>\<open>null\<close>.\<close>

definition coalesce :: "json option \<Rightarrow> json \<Rightarrow> json" where
  "coalesce a b = (case a of None \<Rightarrow> b | Some JNull \<Rightarrow> b | Some v \<Rightarrow> v)"

definition apology :: string where
  "apology = ''I'm having trouble connecting to my brain right now. Please try again shortly.''"

text \<open>The object \<^verbatim>\<open>sendToN8n\<close> posts for a payload: \<^verbatim>\<open>metadata ?? null\<close>.\<close>

definition n8n_body_of :: "N8nPayload \<Rightarrow> n8n_body" where
  "n8n_body_of payload =
     \<lparr>sessionId_b = sessionId_p payload, chatInput = message_p payload,
      history_b = history_p payload,
      metadata_b = (case metadata_p payload of None \<Rightarrow> JNull | Some m \<Rightarrow> m)\<rparr>"

text \<open>
  \<^verbatim>\<open>sendToN8n\<close>. The two functions of the environment are arguments: the webhook
  behind \<^verbatim>\<open>axios.post\<close>, and the built-in \<^verbatim>\<open>JSON.stringify\<close>. The value
  returned is the JavaScript value the source returns, whatever its type.
\<close>

definition sendToN8n ::
  "(n8n_body \<Rightarrow> axios_result) \<Rightarrow> (json \<Rightarrow> string) \<Rightarrow> N8nPayload \<Rightarrow> json" where
  "sendToN8n webhook to_json payload =
     (case webhook (n8n_body_of payload) of
        Rejected \<Rightarrow> JStr apology
      | Resolved data \<Rightarrow>
          coalesce (property data ''output'')
            (coalesce (property data ''text'')
               (coalesce (property data ''message'')
                  (case data of JStr s \<Rightarrow> JStr s | _ \<Rightarrow> JStr (to_json data)))))"

subsection \<open>The socket manager\<close>

record SocketData =
  sessionId :: "string option"
  visitorId :: "string option"

text \<open>The events of \<^verbatim>\<open>ServerToClientEvents\<close>, each with the fields of its payload.\<close>

datatype event =
    Ev_session string string chat_session_status
  | Ev_history "ChatMessageDto list"
  | Ev_message ChatMessageDto
  | Ev_status chat_session_status
  | Ev_error string
  | Ev_sessionClosed string string

text \<open>
  What a handler does, in the order it does it: the writes to the store, the emissions
  (each with the connections that receive it), and the changes to the state of a socket.
  Calls of the logger are not recorded.
\<close>

datatype effect =
    Db_session_create ChatSession
  | Db_session_update string "chat_session_status option" "int option"
  | Db_message_create ChatMessage
  | Emit "nat list" event
  | Set_data nat SocketData
  | Join nat string
  | Leave nat string
  | Register nat
  | Disconnect nat

text \<open>
  The process: the store, the live connections (sockets, numbered), the data and the rooms
  of each socket, and the effects so far. The room every socket has under its own socket
  identifier is left out: no modelled emission addresses it.
\<close>

record server =
  db :: store
  conns :: "nat list"
  socket_data :: "nat \<Rightarrow> SocketData"
  socket_rooms :: "nat \<Rightarrow> string set"
  trace :: "effect list"

definition emit :: "nat list \<Rightarrow> event \<Rightarrow> server \<Rightarrow> server" where
  "emit recipients e srv = srv\<lparr>trace := trace srv @ [Emit recipients e]\<rparr>"

text \<open>\<^verbatim>\<open>socket.emit(...)\<close>\<close>

definition socket_emit :: "nat \<Rightarrow> event \<Rightarrow> server \<Rightarrow> server" where
  "socket_emit k e srv = emit [k] e srv"

text \<open>The connections that are in a room.\<close>

definition room :: "server \<Rightarrow> string \<Rightarrow> nat list" where
  "room srv r = filter (\<lambda>k. r \<in> socket_rooms srv k) (conns srv)"

text \<open>\<^verbatim>\<open>io.to(room).emit(...)\<close>\<close>

definition io_to_emit :: "string \<Rightarrow> event \<Rightarrow> server \<Rightarrow> server" where
  "io_to_emit r e srv = emit (room srv r) e srv"

definition set_socket_data :: "nat \<Rightarrow> SocketData \<Rightarrow> server \<Rightarrow> server" where
  "set_socket_data k d srv =
     srv\<lparr>socket_data := (socket_data srv)(k := d), trace := trace srv @ [Set_data k d]\<rparr>"

definition socket_join :: "nat \<Rightarrow> string \<Rightarrow> server \<Rightarrow> server" where
  "socket_join k r srv =
     srv\<lparr>socket_rooms := (socket_rooms srv)(k := insert r (socket_rooms srv k)),
         trace := trace srv @ [Join k r]\<rparr>"

definition socket_leave :: "nat \<Rightarrow> string \<Rightarrow> server \<Rightarrow> server" where
  "socket_leave k r srv =
     srv\<lparr>socket_rooms := (socket_rooms srv)(k := socket_rooms srv k - {r}),
         trace := trace srv @ [Leave k r]\<rparr>"

text \<open>\<^verbatim>\<open>socket.disconnect(true)\<close>: the connection is closed and leaves its rooms.\<close>

definition socket_disconnect :: "nat \<Rightarrow> server \<Rightarrow> server" where
  "socket_disconnect k srv =
     srv\<lparr>conns := removeAll k (conns srv), socket_rooms := (socket_rooms srv)(k := {}),
         trace := trace srv @ [Disconnect k]\<rparr>"

text \<open>A write to the store made by a handler, with its record in the trace.\<close>

definition commit :: "store \<Rightarrow> effect \<Rightarrow> server \<Rightarrow> server" where
  "commit st w srv = srv\<lparr>db := st, trace := trace srv @ [w]\<rparr>"

text \<open>\<^verbatim>\<open>a || b\<close> on optional strings.\<close>

definition or_else :: "string option \<Rightarrow> string option \<Rightarrow> string option" where
  "or_else a b = (if truthy a then a else b)"

text \<open>\<^verbatim>\<open>a ?? b\<close> on optional strings.\<close>

definition nullish :: "string option \<Rightarrow> string option \<Rightarrow> string option" where
  "nullish a b = (case a of None \<Rightarrow> b | Some x \<Rightarrow> Some x)"

text \<open>
  What the client claims in the handshake, in \<^verbatim>\<open>auth\<close> and in the query string.
\<close>

record handshake =
  auth_visitorId :: "string option"
  query_visitorId :: "string option"
  auth_sessionId :: "string option"
  query_sessionId :: "string option"

text \<open>
  What the environment supplies while a connection is handled: the result of
  \<^verbatim>\<open>uuid()\<close>, the identifier and the instant the database gives a new session, and the
  instant of the final update.
\<close>

record connection_io =
  uuid :: string
  new_session_id :: string
  new_session_at :: int
  connected_at :: int

definition connection_failed :: "nat \<Rightarrow> server \<Rightarrow> server" where
  "connection_failed k srv =
     socket_disconnect k
       (socket_emit k (Ev_error ''Unable to start chat session. Please refresh and try again.'') srv)"

text \<open>
  \<^verbatim>\<open>auth?.visitorId || query.visitorId || uuid()\<close> and
  \<^verbatim>\<open>auth?.sessionId || query.sessionId\<close>
\<close>

definition handshake_visitorId :: "handshake \<Rightarrow> connection_io \<Rightarrow> string" where
  "handshake_visitorId hs io =
     (case or_else (or_else (auth_visitorId hs) (query_visitorId hs)) (Some (uuid io)) of
        Some v \<Rightarrow> v | None \<Rightarrow> uuid io)"

definition handshake_sessionId :: "handshake \<Rightarrow> string option" where
  "handshake_sessionId hs = or_else (auth_sessionId hs) (query_sessionId hs)"

definition handleConnection :: "nat \<Rightarrow> handshake \<Rightarrow> connection_io \<Rightarrow> server \<Rightarrow> server" where
  "handleConnection k hs io srv =
     (let visitorId = handshake_visitorId hs io;
          requestedSessionId = handshake_sessionId hs
      in case ensureSession (db srv) (new_session_id io) (new_session_at io) visitorId
                requestedSessionId of
           Inl _ \<Rightarrow> connection_failed k srv
         | Inr (session, st1) \<Rightarrow>
             (let srv1 = (if chatSession_findUnique (db srv) (id_cs session) = None
                          then commit st1 (Db_session_create session) srv else srv);
                  srv2 = set_socket_data k
                           \<lparr>sessionId = Some (id_cs session), visitorId = Some visitorId\<rparr> srv1;
                  srv3 = socket_join k (id_cs session) srv2;
                  srv4 = srv3\<lparr>trace := trace srv3 @ [Register k]\<rparr>;
                  srv5 = socket_emit k (Ev_session (id_cs session) visitorId (status session)) srv4;
                  history = getHistory_default (db srv5) (id_cs session);
                  srv6 = (if history \<noteq> [] then socket_emit k (Ev_history history) srv5 else srv5)
              in case chatSession_update (db srv6) (id_cs session) (Some ACTIVE)
                        (Some (connected_at io)) of
                   Inl _ \<Rightarrow> connection_failed k srv6
                 | Inr (_, st2) \<Rightarrow>
                     commit st2
                       (Db_session_update (id_cs session) (Some ACTIVE) (Some (connected_at io)))
                       srv6))"

text \<open>
  JavaScript's \<^verbatim>\<open>trim\<close>: white space and line terminators off both ends. Among the
  code units below 256 these are the tab, the line feed, the vertical tab, the form feed,
  the carriage return, the space and the no-break space.
\<close>

definition is_space :: "char \<Rightarrow> bool" where
  "is_space c =
     (c \<in> set [CHR 0x09, CHR 0x0A, CHR 0x0B, CHR 0x0C, CHR 0x0D, CHR 0x20, CHR 0xA0])"

definition trim :: "string \<Rightarrow> string" where
  "trim s = rev (dropWhile is_space (rev (dropWhile is_space s)))"

record IncomingMessagePayload =
  sessionId_in :: "string option"
  content_in :: "string option"
  metadata_in :: "json option"

text \<open>
  What the environment supplies while a message event is handled: identifier and creation
  instant of the two rows, the instant of the session update, the webhook and
  \<^verbatim>\<open>JSON.stringify\<close>.
\<close>

record message_io =
  user_message_id :: string
  user_message_at :: int
  active_at :: int
  post :: "n8n_body \<Rightarrow> axios_result"
  stringify :: "json \<Rightarrow> string"
  bot_message_id :: string
  bot_message_at :: int

definition message_failed :: "nat \<Rightarrow> server \<Rightarrow> server" where
  "message_failed k srv =
     socket_emit k (Ev_error ''Unable to send message right now. Please try again.'') srv"

text \<open>The argument of \<^verbatim>\<open>sendToN8n\<close> in the message handler.\<close>

definition brain_request :: "store \<Rightarrow> string \<Rightarrow> string \<Rightarrow> json option \<Rightarrow> N8nPayload" where
  "brain_request st sid c md =
     \<lparr>sessionId_p = sid, message_p = c,
      history_p = map (\<lambda>m. \<lparr>sender_he = sender m, content_he = content_dto m,
                                createdAt_he = createdAt m\<rparr>) (getHistory st sid 50),
      metadata_p = md\<rparr>"

text \<open>
  The handler of \<^verbatim>\<open>message\<close>. \<^verbatim>\<open>aiReply.substring(0, 100)\<close> throws a TypeError
  when the reply is not a string, which the \<^verbatim>\<open>catch\<close> of the handler turns into an
  error event.
\<close>

definition on_message :: "nat \<Rightarrow> IncomingMessagePayload \<Rightarrow> message_io \<Rightarrow> server \<Rightarrow> server" where
  "on_message k payload io srv =
     (case nullish (sessionId_in payload) (sessionId (socket_data srv k)) of
        None \<Rightarrow> socket_emit k (Ev_error ''Session not established yet.'') srv
      | Some sid \<Rightarrow>
          if sid = [] then socket_emit k (Ev_error ''Session not established yet.'') srv
          else
            (case map_option trim (content_in payload) of
               None \<Rightarrow> srv
             | Some c \<Rightarrow>
                 if c = [] then srv
                 else
                   (case chatSession_findUnique (db srv) sid of
                      None \<Rightarrow> socket_emit k (Ev_status CLOSED) srv
                    | Some session \<Rightarrow>
                        if status session = CLOSED then socket_emit k (Ev_status CLOSED) srv
                        else
                          (let cu = chatMessage_create (db srv) (user_message_id io)
                                      (user_message_at io) sid USER c;
                               srv1 = commit (snd cu) (Db_message_create (fst cu)) srv;
                               srv2 = io_to_emit sid (Ev_message (mapMessage (fst cu))) srv1
                           in case chatSession_update (db srv2) sid (Some ACTIVE)
                                     (Some (active_at io)) of
                                Inl _ \<Rightarrow> message_failed k srv2
                              | Inr (_, st3) \<Rightarrow>
                                  (let srv3 = commit st3
                                                (Db_session_update sid (Some ACTIVE)
                                                   (Some (active_at io))) srv2
                                   in case sendToN8n (post io) (stringify io)
                                             (brain_request (db srv3) sid c (metadata_in payload)) of
                                        JStr aiReply \<Rightarrow>
                                          (let cb = chatMessage_create (db srv3) (bot_message_id io)
                                                      (bot_message_at io) sid BOT aiReply;
                                               srv4 = commit (snd cb) (Db_message_create (fst cb)) srv3
                                           in io_to_emit sid (Ev_message (mapMessage (fst cb))) srv4)
                                      | _ \<Rightarrow> message_failed k srv3)))))"

text \<open>The handler of \<^verbatim>\<open>heartbeat\<close>: a failed update is logged and nothing else.\<close>

definition on_heartbeat :: "nat \<Rightarrow> string option \<Rightarrow> int \<Rightarrow> server \<Rightarrow> server" where
  "on_heartbeat k payload_sessionId now srv =
     (case nullish payload_sessionId (sessionId (socket_data srv k)) of
        None \<Rightarrow> srv
      | Some sid \<Rightarrow>
          if sid = [] then srv
          else (case chatSession_update (db srv) sid (Some ACTIVE) (Some now) of
                  Inl _ \<Rightarrow> srv
                | Inr (_, st1) \<Rightarrow> commit st1 (Db_session_update sid (Some ACTIVE) (Some now)) srv))"

text \<open>
  What the environment supplies while \<^verbatim>\<open>endSession\<close> is handled: the instant of the
  update, and identifier and creation instant of the SYSTEM message.
\<close>

record end_io =
  closed_at :: int
  system_message_id :: string
  system_message_at :: int

definition on_endSession :: "nat \<Rightarrow> string option \<Rightarrow> end_io \<Rightarrow> server \<Rightarrow> server" where
  "on_endSession k payload_sessionId io srv =
     (case nullish payload_sessionId (sessionId (socket_data srv k)) of
        None \<Rightarrow> srv
      | Some sid \<Rightarrow>
          if sid = [] then srv
          else (case chatSession_update (db srv) sid (Some CLOSED) (Some (closed_at io)) of
                  Inl _ \<Rightarrow> socket_emit k (Ev_error ''Failed to end session. Please try again.'') srv
                | Inr (_, st1) \<Rightarrow>
                    (let srv1 = commit st1
                                  (Db_session_update sid (Some CLOSED) (Some (closed_at io))) srv;
                         cs = chatMessage_create (db srv1) (system_message_id io)
                                (system_message_at io) sid SYSTEM ''Chat session ended by user.'';
                         srv2 = commit (snd cs) (Db_message_create (fst cs)) srv1;
                         srv3 = socket_emit k
                                  (Ev_sessionClosed sid
                                     ''Session ended successfully. You can start a new conversation.'')
                                  srv2;
                         srv4 = socket_leave k sid srv3
                     in set_socket_data k ((socket_data srv4 k)\<lparr>sessionId := None\<rparr>) srv4)))"

subsection \<open>The heartbeat route\<close>

datatype rest_response =
    Ok_heartbeat string int chat_session_status
  | Error_500 string

text \<open>\<^verbatim>\<open>PATCH /api/sessions/:id/heartbeat\<close>\<close>

definition patch_heartbeat :: "store \<Rightarrow> string \<Rightarrow> int \<Rightarrow> rest_response \<times> store" where
  "patch_heartbeat st i now =
     (case chatSession_update st i None (Some now) of
        Inl _ \<Rightarrow> (Error_500 ''Failed to update heartbeat'', st)
      | Inr (session, st1) \<Rightarrow>
          (Ok_heartbeat (id_cs session) (last_active_at session) (status session), st1))"

subsection \<open>The rows a handler creates\<close>

definition user_row :: "message_io \<Rightarrow> string \<Rightarrow> string \<Rightarrow> ChatMessage" where
  "user_row io sid c =
     \<lparr>id_cm = user_message_id io, session_id = sid, role = USER, content = c,
      created_at_cm = user_message_at io\<rparr>"

definition bot_row :: "message_io \<Rightarrow> string \<Rightarrow> string \<Rightarrow> ChatMessage" where
  "bot_row io sid r =
     \<lparr>id_cm = bot_message_id io, session_id = sid, role = BOT, content = r,
      created_at_cm = bot_message_at io\<rparr>"

definition system_row :: "end_io \<Rightarrow> string \<Rightarrow> ChatMessage" where
  "system_row io sid =
     \<lparr>id_cm = system_message_id io, session_id = sid, role = SYSTEM,
      content = ''Chat session ended by user.'', created_at_cm = system_message_at io\<rparr>"

subsection \<open>Reading a trace\<close>

text \<open>The emissions of a trace, in order, each with its recipients.\<close>

fun emitted :: "effect list \<Rightarrow> (nat list \<times> event) list" where
  "emitted [] = []"
| "emitted (Emit ks e # tr) = (ks, e) # emitted tr"
| "emitted (_ # tr) = emitted tr"

text \<open>The messages a trace created in the store, in order.\<close>

fun persisted :: "effect list \<Rightarrow> ChatMessage list" where
  "persisted [] = []"
| "persisted (Db_message_create m # tr) = m # persisted tr"
| "persisted (_ # tr) = persisted tr"

subsection \<open>The net effect of a tick on one session\<close>


subsection \<open>Concrete inputs\<close>

definition session_of :: "string \<Rightarrow> chat_session_status \<Rightarrow> int \<Rightarrow> ChatSession" where
  "session_of i s t =
     \<lparr>id_cs = i, visitor_id = ''v1'', status = s, last_active_at = t, created_at_cs = 0\<rparr>"

text \<open>One session, active at instant 5000.\<close>

definition store_fresh :: store where
  "store_fresh = \<lparr>chat_session = [session_of ''s1'' ACTIVE 5000], chat_message = []\<rparr>"


text \<open>One session, closed, last active at instant 5000.\<close>

definition store_closed :: store where
  "store_closed = \<lparr>chat_session = [session_of ''s1'' CLOSED 5000], chat_message = []\<rparr>"

text \<open>
  Three sessions of visitor v1, created at the instants 10, 20 and 30: the first is closed.
\<close>

definition store_visitor :: store where
  "store_visitor =
     \<lparr>chat_session =
        [\<lparr>id_cs = ''s1'', visitor_id = ''v1'', status = CLOSED, last_active_at = 10, created_at_cs = 10\<rparr>,
         \<lparr>id_cs = ''s2'', visitor_id = ''v1'', status = ACTIVE, last_active_at = 20, created_at_cs = 20\<rparr>,
         \<lparr>id_cs = ''s3'', visitor_id = ''v1'', status = INACTIVE, last_active_at = 30, created_at_cs = 30\<rparr>],
      chat_message = []\<rparr>"

text \<open>A session with \<open>n\<close> messages, created at the instants 0 to \<open>n - 1\<close>.\<close>

definition old_message :: "nat \<Rightarrow> ChatMessage" where
  "old_message i =
     \<lparr>id_cm = ''m'', session_id = ''s1'', role = USER, content = ''old'', created_at_cm = int i\<rparr>"

definition store_long :: "nat \<Rightarrow> store" where
  "store_long n =
     \<lparr>chat_session = [session_of ''s1'' ACTIVE 0], chat_message = map old_message [0..<n]\<rparr>"

text \<open>Two connections, both bound to session s1 and in its room.\<close>

definition server_bound :: "store \<Rightarrow> server" where
  "server_bound st =
     \<lparr>db = st, conns = [1, 2],
      socket_data = (\<lambda>_. \<lparr>sessionId = Some ''s1'', visitorId = Some ''v1''\<rparr>),
      socket_rooms = (\<lambda>_. {''s1''}), trace = []\<rparr>"

text \<open>Two connections with no session bound.\<close>

definition server_unbound :: "store \<Rightarrow> server" where
  "server_unbound st =
     \<lparr>db = st, conns = [1, 2],
      socket_data = (\<lambda>_. \<lparr>sessionId = None, visitorId = Some ''v1''\<rparr>),
      socket_rooms = (\<lambda>_. {}), trace = []\<rparr>"

definition payload_of :: "string option \<Rightarrow> string \<Rightarrow> IncomingMessagePayload" where
  "payload_of i c = \<lparr>sessionId_in = i, content_in = Some c, metadata_in = None\<rparr>"

text \<open>Three webhooks: the reply is a number, the reply is a text, the reply is the content
  of the last entry of the history it was sent.\<close>

definition post_number :: "n8n_body \<Rightarrow> axios_result" where
  "post_number body = Resolved (JObj [(''output'', JNum 42)])"

definition post_hi :: "n8n_body \<Rightarrow> axios_result" where
  "post_hi body = Resolved (JObj [(''output'', JStr ''hi'')])"

definition post_last :: "n8n_body \<Rightarrow> axios_result" where
  "post_last body =
     Resolved (JStr (case rev (history_b body) of [] \<Rightarrow> ''no history'' | e # _ \<Rightarrow> content_he e))"

definition io_with :: "(n8n_body \<Rightarrow> axios_result) \<Rightarrow> message_io" where
  "io_with p =
     \<lparr>user_message_id = ''u1'', user_message_at = 6000, active_at = 6001, post = p,
      stringify = (\<lambda>_. ''{}''), bot_message_id = ''b1'', bot_message_at = 7000\<rparr>"

definition io_end :: end_io where
  "io_end = \<lparr>closed_at = 9000, system_message_id = ''y1'', system_message_at = 9001\<rparr>"

definition hs_claim :: handshake where
  "hs_claim = \<lparr>auth_visitorId = Some ''v1'', query_visitorId = None,
                auth_sessionId = Some ''s1'', query_sessionId = None\<rparr>"

definition io_connect :: connection_io where
  "io_connect = \<lparr>uuid = ''v9'', new_session_id = ''s9'', new_session_at = 8000,
                  connected_at = 8001\<rparr>"




section \<open>Facts about the store\<close>

lemma findUnique_Some:
  "chatSession_findUnique st i = Some s \<Longrightarrow> s \<in> set (chat_session st) \<and> id_cs s = i"
  by (auto simp: chatSession_findUnique_def find_Some_iff)

lemma findUnique_None:
  "chatSession_findUnique st i = None \<longleftrightarrow> i \<notin> set (map id_cs (chat_session st))"
  by (auto simp: chatSession_findUnique_def find_None_iff)

text \<open>Under the primary key a row is what its identifier finds.\<close>

lemma findUnique_distinct:
  assumes d: "distinct (map id_cs (chat_session st))" and m: "s \<in> set (chat_session st)"
  shows "chatSession_findUnique st (id_cs s) = Some s"
proof -
  obtain r where r: "chatSession_findUnique st (id_cs s) = Some r"
    using m by (cases "chatSession_findUnique st (id_cs s)") (auto simp: findUnique_None)
  then have "r \<in> set (chat_session st)" "id_cs r = id_cs s"
    using findUnique_Some by blast+
  with d m have "r = s" by (meson distinct_map inj_onD)
  with r show ?thesis by simp
qed

lemma findUnique_messages:
  "chatSession_findUnique (st\<lparr>chat_message := ms\<rparr>) i = chatSession_findUnique st i"
  by (simp add: chatSession_findUnique_def)

lemma findUnique_map_same:
  assumes g: "\<And>x. id_cs (g x) = id_cs x" and f: "chatSession_findUnique st i = Some s"
  shows "chatSession_findUnique
           (st\<lparr>chat_session := map (\<lambda>x. if id_cs x = i then g x else x) (chat_session st)\<rparr>) i
         = Some (g s)"
proof -
  have "find (\<lambda>s. id_cs s = i) (map (\<lambda>x. if id_cs x = i then g x else x) xs) =
        map_option g (find (\<lambda>s. id_cs s = i) xs)" for xs
    by (induction xs) (auto simp: g)
  with f show ?thesis by (simp add: chatSession_findUnique_def)
qed


lemma update_Some:
  "chatSession_findUnique st i = Some s \<Longrightarrow>
   chatSession_update st i ds dl =
     Inr (set_data ds dl s,
          st\<lparr>chat_session := map (\<lambda>x. if id_cs x = i then set_data ds dl x else x) (chat_session st)\<rparr>)"
  by (simp add: chatSession_update_def)

lemma update_None:
  "chatSession_findUnique st i = None \<Longrightarrow> chatSession_update st i ds dl = Inl RecordNotFound"
  by (simp add: chatSession_update_def)



text \<open>The head of a sorted list is a least element of the list that was sorted.\<close>

lemma sort_key_head:
  assumes a: "sort_key f xs = e # rest"
  shows "e \<in> set xs \<and> (\<forall>x \<in> set xs. f e \<le> f x)"
proof -
  have "sorted (map f (sort_key f xs))" by (rule sorted_sort_key)
  with a have "\<forall>x \<in> set (e # rest). f e \<le> f x" by auto
  moreover have "set (e # rest) = set xs" using a by (metis set_sort)
  ultimately show ?thesis by auto
qed

lemma findFirst_Some:
  "chatSession_findFirst st v = Some e \<Longrightarrow>
     e \<in> set (chat_session st) \<and> visitor_id e = v \<and> status e \<noteq> CLOSED \<and>
     (\<forall>s \<in> set (chat_session st). visitor_id s = v \<and> status s \<noteq> CLOSED \<longrightarrow>
        created_at_cs s \<le> created_at_cs e)"
  unfolding chatSession_findFirst_def
  by (auto split: list.splits dest!: sort_key_head)

lemma findFirst_None:
  assumes "chatSession_findFirst st v = None"
  shows "\<forall>s \<in> set (chat_session st). visitor_id s = v \<longrightarrow> status s = CLOSED"
proof -
  from assms have "sort_key (\<lambda>s. - created_at_cs s)
      (filter (\<lambda>s. visitor_id s = v \<and> status s \<noteq> CLOSED) (chat_session st)) = []"
    by (simp add: chatSession_findFirst_def split: list.splits)
  then have "length (filter (\<lambda>s. visitor_id s = v \<and> status s \<noteq> CLOSED) (chat_session st)) = 0"
    by (metis length_sort list.size(3))
  then show ?thesis by (auto simp: filter_empty_conv)
qed

lemma findMany_unbounded:
  "chatMessage_findMany st sid None =
     sort_key created_at_cm (filter (\<lambda>m. session_id m = sid) (chat_message st))"
  by (simp add: chatMessage_findMany_def)

lemma findMany_take:
  "chatMessage_findMany st sid (Some n) = take n (chatMessage_findMany st sid None)"
  by (simp add: chatMessage_findMany_def)

lemma findMany_sorted: "sorted (map created_at_cm (chatMessage_findMany st sid None))"
  by (simp add: findMany_unbounded)

lemma getHistory_take:
  "getHistory st sid n = map mapMessage (take n (chatMessage_findMany st sid None))"
  by (simp add: getHistory_def findMany_take)

lemma sorted_take_drop:
  assumes "sorted (map f xs)"
  shows "\<forall>a \<in> set (take n xs). \<forall>b \<in> set (drop n xs). f a \<le> f b"
proof -
  from assms have "sorted (map f (take n xs) @ map f (drop n xs))"
    by (metis append_take_drop_id map_append)
  then show ?thesis by (auto simp: sorted_append)
qed




lemma emitted_append: "emitted (xs @ ys) = emitted xs @ emitted ys"
  by (induction xs rule: emitted.induct) simp_all

lemma persisted_append: "persisted (xs @ ys) = persisted xs @ persisted ys"
  by (induction xs rule: persisted.induct) simp_all

text \<open>The rows of the long session, and of the long session with one younger row.\<close>

lemma long_rows: "chatMessage_findMany (store_long n) ''s1'' None = map old_message [0..<n]"
proof -
  have f: "filter (\<lambda>m. session_id m = ''s1'') (map old_message [0..<n]) = map old_message [0..<n]"
    by (simp add: filter_map o_def old_message_def)
  have "sorted (map created_at_cm (map old_message [0..<n]))"
    by (simp add: o_def old_message_def sorted_map sorted_wrt_map)
  then have "sort_key created_at_cm (map old_message [0..<n]) = map old_message [0..<n]"
    by (rule sort_key_id_if_sorted)
  then show ?thesis by (simp add: findMany_unbounded store_long_def f)
qed

lemma long_rows_snoc:
  assumes "session_id m = ''s1''" "int n \<le> created_at_cm m"
  shows "chatMessage_findMany
           ((store_long n)\<lparr>chat_message := chat_message (store_long n) @ [m]\<rparr>) ''s1'' None
         = map old_message [0..<n] @ [m]"
proof -
  have f: "filter (\<lambda>m. session_id m = ''s1'') (map old_message [0..<n]) = map old_message [0..<n]"
    by (simp add: filter_map o_def old_message_def)
  have "sorted (map created_at_cm (map old_message [0..<n] @ [m]))"
    using assms(2) by (auto simp add: o_def old_message_def sorted_append sorted_map sorted_wrt_map)
  then have "sort_key created_at_cm (map old_message [0..<n] @ [m]) = map old_message [0..<n] @ [m]"
    by (rule sort_key_id_if_sorted)
  then show ?thesis using assms(1) by (simp add: findMany_unbounded store_long_def f)
qed

section \<open>The sweep\<close>















section \<open>Session resolution on connect\<close>

text \<open>
  Claim C5. In a store whose identifiers are distinct and not empty, and for a fresh
  identifier of the database: a claimed identifier that finds a session that is not CLOSED
  gets that session, the store unchanged; in every other case the most recently created
  session of the visitor that is not CLOSED is reused if there is one, and otherwise a
  session with status ACTIVE is created and appended; a claimed identifier of a CLOSED
  session never gets that session.
\<close>

theorem ensureSession_precedence:
  assumes fresh: "new_id \<notin> set (map id_cs (chat_session st))"
    and pk: "distinct (map id_cs (chat_session st))"
    and nonempty: "[] \<notin> set (map id_cs (chat_session st))"
  shows
  "(\<forall>s. requested = Some sid \<and> chatSession_findUnique st sid = Some s \<and> status s \<noteq> CLOSED \<longrightarrow>
        ensureSession st new_id now v requested = Inr (s, st) \<and> id_cs s = sid) \<and>
   (requested = None \<or>
      (requested = Some sid \<and>
         (chatSession_findUnique st sid = None \<or>
          (\<exists>s. chatSession_findUnique st sid = Some s \<and> status s = CLOSED))) \<longrightarrow>
      ensureSession st new_id now v requested =
        (case chatSession_findFirst st v of
           Some existing \<Rightarrow> Inr (existing, st)
         | None \<Rightarrow>
             Inr (\<lparr>id_cs = new_id, visitor_id = v, status = ACTIVE, last_active_at = now,
                    created_at_cs = now\<rparr>,
                  st\<lparr>chat_session := chat_session st @
                     [\<lparr>id_cs = new_id, visitor_id = v, status = ACTIVE, last_active_at = now,
                       created_at_cs = now\<rparr>]\<rparr>))) \<and>
   (\<forall>e. chatSession_findFirst st v = Some e \<longrightarrow>
      e \<in> set (chat_session st) \<and> visitor_id e = v \<and> status e \<noteq> CLOSED \<and>
      (\<forall>s \<in> set (chat_session st). visitor_id s = v \<and> status s \<noteq> CLOSED \<longrightarrow>
         created_at_cs s \<le> created_at_cs e)) \<and>
   (chatSession_findFirst st v = None \<longrightarrow>
      (\<forall>s \<in> set (chat_session st). visitor_id s = v \<longrightarrow> status s = CLOSED)) \<and>
   (\<forall>s. requested = Some sid \<and> chatSession_findUnique st sid = Some s \<and> status s = CLOSED \<longrightarrow>
      (\<exists>r st'. ensureSession st new_id now v requested = Inr (r, st') \<and>
         id_cs r \<noteq> sid \<and> status r \<noteq> CLOSED))"
proof -
  let ?new = "\<lparr>id_cs = new_id, visitor_id = v, status = ACTIVE, last_active_at = now,
                created_at_cs = now\<rparr>"
  have found_nonempty: "sid \<noteq> []" if "chatSession_findUnique st sid = Some s" for s
  proof -
    from that have "sid \<in> set (map id_cs (chat_session st))"
      using findUnique_Some by fastforce
    with nonempty show ?thesis by metis
  qed
  have empty_none: "chatSession_findUnique st [] = None"
    using nonempty by (simp add: findUnique_None)
  have reuse: "ensureSession st new_id now v requested = Inr (s, st) \<and> id_cs s = sid"
    if "requested = Some sid \<and> chatSession_findUnique st sid = Some s \<and> status s \<noteq> CLOSED" for s
    using that findUnique_Some [of st sid s] found_nonempty [of s]
    by (simp add: ensureSession_def)
  have fallback: "ensureSession st new_id now v requested =
        (case chatSession_findFirst st v of
           Some existing \<Rightarrow> Inr (existing, st)
         | None \<Rightarrow> Inr (?new, st\<lparr>chat_session := chat_session st @ [?new]\<rparr>))"
    if "requested = None \<or>
      (requested = Some sid \<and>
         (chatSession_findUnique st sid = None \<or>
          (\<exists>s. chatSession_findUnique st sid = Some s \<and> status s = CLOSED)))"
    using that fresh found_nonempty
    by (auto simp: ensureSession_def chatSession_create_def Let_def split: option.splits)
  have closed: "\<exists>r st'. ensureSession st new_id now v requested = Inr (r, st') \<and>
         id_cs r \<noteq> sid \<and> status r \<noteq> CLOSED"
    if a: "requested = Some sid \<and> chatSession_findUnique st sid = Some s \<and> status s = CLOSED"
    for s
  proof (cases "chatSession_findFirst st v")
    case None
    from a have "sid \<in> set (map id_cs (chat_session st))"
      using findUnique_Some by fastforce
    with fresh have "new_id \<noteq> sid" by blast
    with None a fresh show ?thesis
      by (auto simp: ensureSession_def chatSession_create_def Let_def)
  next
    case (Some e)
    then have e: "e \<in> set (chat_session st)" "status e \<noteq> CLOSED"
      using findFirst_Some by blast+
    have "id_cs e \<noteq> sid"
    proof
      assume "id_cs e = sid"
      with pk e(1) have "chatSession_findUnique st sid = Some e"
        using findUnique_distinct by blast
      with a e(2) show False by simp
    qed
    with a Some e show ?thesis
      by (auto simp: ensureSession_def)
  qed
  show ?thesis
    using reuse fallback closed findFirst_Some [of st v] findFirst_None [of st v]
    by (intro conjI allI impI) blast+
qed

text \<open>
  Visitor v1 has a closed session s1 and two open ones, s3 the younger. Claiming s2 gets
  s2; claiming the closed s1 gets s3.
\<close>

theorem ensureSession_precedence_witness:
  "''s9'' \<notin> set (map id_cs (chat_session store_visitor)) \<and>
   distinct (map id_cs (chat_session store_visitor)) \<and>
   [] \<notin> set (map id_cs (chat_session store_visitor)) \<and>
   chatSession_findUnique store_visitor ''s2'' = Some (chat_session store_visitor ! 1) \<and>
   ensureSession store_visitor ''s9'' 40 ''v1'' (Some ''s2'') =
     Inr (chat_session store_visitor ! 1, store_visitor) \<and>
   chatSession_findUnique store_visitor ''s1'' = Some (chat_session store_visitor ! 0) \<and>
   chatSession_findFirst store_visitor ''v1'' = Some (chat_session store_visitor ! 2) \<and>
   ensureSession store_visitor ''s9'' 40 ''v1'' (Some ''s1'') =
     Inr (chat_session store_visitor ! 2, store_visitor)"
proof -
  have h: "''s9'' \<notin> set (map id_cs (chat_session store_visitor))"
    "distinct (map id_cs (chat_session store_visitor))"
    "[] \<notin> set (map id_cs (chat_session store_visitor))"
    by (simp_all add: store_visitor_def)
  have f: "chatSession_findUnique store_visitor ''s2'' = Some (chat_session store_visitor ! 1)"
    "status (chat_session store_visitor ! 1) \<noteq> CLOSED"
    "chatSession_findUnique store_visitor ''s1'' = Some (chat_session store_visitor ! 0)"
    "status (chat_session store_visitor ! 0) = CLOSED"
    "chatSession_findFirst store_visitor ''v1'' = Some (chat_session store_visitor ! 2)"
    by (simp_all add: store_visitor_def chatSession_findUnique_def chatSession_findFirst_def)
  have reuse: "ensureSession store_visitor ''s9'' 40 ''v1'' (Some ''s2'') =
      Inr (chat_session store_visitor ! 1, store_visitor)"
    using ensureSession_precedence [OF h, where requested = "Some ''s2''" and sid = "''s2''"
        and now = 40 and v = "''v1''"] f(1,2)
    by blast
  have other: "ensureSession store_visitor ''s9'' 40 ''v1'' (Some ''s1'') =
      (case chatSession_findFirst store_visitor ''v1'' of
         Some existing \<Rightarrow> Inr (existing, store_visitor)
       | None \<Rightarrow>
           Inr (\<lparr>id_cs = ''s9'', visitor_id = ''v1'', status = ACTIVE, last_active_at = 40,
                  created_at_cs = 40\<rparr>,
                store_visitor\<lparr>chat_session := chat_session store_visitor @
                   [\<lparr>id_cs = ''s9'', visitor_id = ''v1'', status = ACTIVE, last_active_at = 40,
                     created_at_cs = 40\<rparr>]\<rparr>))"
    using ensureSession_precedence [OF h, where requested = "Some ''s1''" and sid = "''s1''"
        and now = 40 and v = "''v1''"] f(3,4)
    by blast
  show ?thesis
    using h f reuse other by (simp only: option.case simp_thms)
qed

section \<open>The history replayed on connect\<close>

lemma ensureSession_member:
  "ensureSession st n t v r = Inr (s, st1) \<Longrightarrow> s \<in> set (chat_session st1)"
  by (auto simp: ensureSession_def chatSession_create_def Let_def
      split: option.splits if_splits dest: findUnique_Some findFirst_Some)

lemma ensureSession_found:
  assumes "ensureSession st n t v r = Inr (s, st1)"
  shows "chatSession_findUnique st1 (id_cs s) \<noteq> None"
  using ensureSession_member [OF assms] by (simp add: findUnique_None)

text \<open>What a connection that resolves its session emits: the session, then the history
  if there is any.\<close>

lemma handleConnection_emitted:
  assumes ok: "ensureSession (db srv) (new_session_id io) (new_session_at io)
                 (handshake_visitorId hs io) (handshake_sessionId hs) = Inr (session, st1)"
  shows "emitted (trace (handleConnection k hs io srv)) =
           emitted (trace srv) @
           ([k], Ev_session (id_cs session) (handshake_visitorId hs io) (status session)) #
           (if getHistory_default st1 (id_cs session) = [] then []
            else [([k], Ev_history (getHistory_default st1 (id_cs session)))])"
proof -
  obtain s' where f: "chatSession_findUnique st1 (id_cs session) = Some s'"
    using ensureSession_found [OF ok] by blast
  have same: "chatSession_findUnique (db srv) (id_cs session) \<noteq> None \<Longrightarrow> st1 = db srv"
    using ok
    by (auto simp: ensureSession_def chatSession_create_def Let_def findUnique_None
        split: option.splits if_splits)
  show ?thesis
    using ok f same
    by (auto simp: handleConnection_def Let_def commit_def set_socket_data_def socket_join_def
        socket_emit_def emit_def update_Some emitted_append)
qed

text \<open>
  Claim C10. The history a connect replays is the first 100 rows of the session in
  ascending order of creation, so at most 100 messages; the rows of that order are the
  messages of the session, and every row left out was created no earlier than every row
  delivered. With more than 100 messages exactly 100 are delivered and the rest, the most
  recent ones, are left out. A connection that resolves its session emits the session
  event and then, if that history is not empty, one history event that carries it.
\<close>

theorem history_replay_is_the_earliest_100:
  "(let rows = chatMessage_findMany st sid None; h = getHistory_default st sid
    in h = map mapMessage (take 100 rows) \<and> length h \<le> 100 \<and>
       set rows = {m \<in> set (chat_message st). session_id m = sid} \<and>
       length rows = length (filter (\<lambda>m. session_id m = sid) (chat_message st)) \<and>
       sorted (map created_at_cm rows) \<and>
       (\<forall>m \<in> set (take 100 rows). \<forall>m' \<in> set (drop 100 rows).
          created_at_cm m \<le> created_at_cm m') \<and>
       (100 < length rows \<longrightarrow>
          length h = 100 \<and> drop 100 rows \<noteq> [] \<and> rows = take 100 rows @ drop 100 rows)) \<and>
   (\<forall>session st1.
      ensureSession (db srv) (new_session_id io) (new_session_at io)
        (handshake_visitorId hs io) (handshake_sessionId hs) = Inr (session, st1) \<longrightarrow>
      emitted (trace (handleConnection k hs io srv)) =
        emitted (trace srv) @
        ([k], Ev_session (id_cs session) (handshake_visitorId hs io) (status session)) #
        (if getHistory_default st1 (id_cs session) = [] then []
         else [([k], Ev_history (getHistory_default st1 (id_cs session)))]))"
proof -
  have h: "getHistory_default st sid = map mapMessage (take 100 (chatMessage_findMany st sid None))"
    by (simp add: getHistory_default_def getHistory_take)
  have s: "set (chatMessage_findMany st sid None) = {m \<in> set (chat_message st). session_id m = sid}"
    by (auto simp: findMany_unbounded)
  have l: "length (chatMessage_findMany st sid None) =
           length (filter (\<lambda>m. session_id m = sid) (chat_message st))"
    by (simp add: findMany_unbounded)
  have o: "\<forall>m \<in> set (take 100 (chatMessage_findMany st sid None)).
           \<forall>m' \<in> set (drop 100 (chatMessage_findMany st sid None)).
             created_at_cm m \<le> created_at_cm m'"
    by (rule sorted_take_drop [OF findMany_sorted])
  show ?thesis
    unfolding Let_def
    apply (intro conjI)
    subgoal by (rule h)
    subgoal by (simp add: h)
    subgoal by (rule s)
    subgoal by (rule l)
    subgoal by (rule findMany_sorted)
    subgoal by (rule o)
    subgoal by (simp add: h)
    subgoal using handleConnection_emitted by blast
    done
qed

text \<open>
  A session with 101 messages, created at the instants 0 to 100: the connect that claims
  it replays 100 of them, the ones created at the instants 0 to 99.
\<close>

theorem history_replay_is_the_earliest_100_witness:
  "100 < length (chatMessage_findMany (store_long 101) ''s1'' None) \<and>
   length (getHistory_default (store_long 101) ''s1'') = 100 \<and>
   getHistory_default (store_long 101) ''s1'' = map mapMessage (map old_message [0..<100]) \<and>
   ensureSession (db (server_unbound (store_long 101))) (new_session_id io_connect)
     (new_session_at io_connect) (handshake_visitorId hs_claim io_connect)
     (handshake_sessionId hs_claim) = Inr (session_of ''s1'' ACTIVE 0, store_long 101) \<and>
   emitted (trace (handleConnection 1 hs_claim io_connect (server_unbound (store_long 101)))) =
     [([1], Ev_session ''s1'' ''v1'' ACTIVE),
      ([1], Ev_history (getHistory_default (store_long 101) ''s1''))]"
proof -
  have n: "100 < length (chatMessage_findMany (store_long 101) ''s1'' None)"
    by (simp add: long_rows)
  have t: "take 100 (map old_message [0..<101]) = map old_message [0..<100]"
    by (simp add: take_map del: upt_Suc)
  have e: "ensureSession (db (server_unbound (store_long 101))) (new_session_id io_connect)
     (new_session_at io_connect) (handshake_visitorId hs_claim io_connect)
     (handshake_sessionId hs_claim) = Inr (session_of ''s1'' ACTIVE 0, store_long 101)"
    by (simp add: ensureSession_def server_unbound_def handshake_sessionId_def hs_claim_def
        or_else_def truthy_def chatSession_findUnique_def store_long_def session_of_def)
  have i: "id_cs (session_of ''s1'' ACTIVE 0) = ''s1''" "status (session_of ''s1'' ACTIVE 0) = ACTIVE"
    "handshake_visitorId hs_claim io_connect = ''v1''"
    "trace (server_unbound (store_long 101)) = []"
    by (simp_all add: session_of_def handshake_visitorId_def hs_claim_def or_else_def truthy_def
        server_unbound_def)
  from history_replay_is_the_earliest_100 [where st = "store_long 101" and sid = "''s1''"
      and srv = "server_unbound (store_long 101)" and io = io_connect and hs = hs_claim and k = 1]
    n e
  show ?thesis
    by (simp add: Let_def long_rows t i del: upt_Suc)
qed

section \<open>The message event\<close>

lemma brain_request_messages:
  "chat_message st' = chat_message st \<Longrightarrow> brain_request st' sid c md = brain_request st sid c md"
  by (simp add: brain_request_def getHistory_def chatMessage_findMany_def)

lemma room_simps:
  "room (srv\<lparr>db := d\<rparr>) r = room srv r"
  "room (srv\<lparr>trace := t\<rparr>) r = room srv r"
  by (simp_all add: room_def)

text \<open>
  The handler on a message that passes its checks: the USER row, its broadcast, the
  update of the session, the call of the n8n client on the 50-row history, and then either
  the BOT row and its broadcast or, for a reply that is not a string, the error event.
\<close>

lemma on_message_accepted:
  assumes res: "nullish (sessionId_in payload) (sessionId (socket_data srv k)) = Some sid" "sid \<noteq> []"
    and con: "content_in payload = Some raw" "trim raw = c" "c \<noteq> []"
    and ses: "chatSession_findUnique (db srv) sid = Some session" "status session \<noteq> CLOSED"
  shows "on_message k payload io srv =
    (let st1 = (db srv)\<lparr>chat_message := chat_message (db srv) @ [user_row io sid c]\<rparr>;
         st3 = st1\<lparr>chat_session := map (\<lambda>x. if id_cs x = sid
                        then set_data (Some ACTIVE) (Some (active_at io)) x else x) (chat_session st1)\<rparr>;
         tr3 = trace srv @ [Db_message_create (user_row io sid c),
                 Emit (room srv sid) (Ev_message (mapMessage (user_row io sid c))),
                 Db_session_update sid (Some ACTIVE) (Some (active_at io))]
     in case sendToN8n (post io) (stringify io) (brain_request st1 sid c (metadata_in payload)) of
          JStr r \<Rightarrow>
            srv\<lparr>db := st3\<lparr>chat_message := chat_message st3 @ [bot_row io sid r]\<rparr>,
                trace := tr3 @ [Db_message_create (bot_row io sid r),
                   Emit (room srv sid) (Ev_message (mapMessage (bot_row io sid r)))]\<rparr>
        | _ \<Rightarrow> srv\<lparr>db := st3, trace := tr3 @
                   [Emit [k] (Ev_error ''Unable to send message right now. Please try again.'')]\<rparr>)"
proof -
  let ?st1 = "(db srv)\<lparr>chat_message := chat_message (db srv) @ [user_row io sid c]\<rparr>"
  let ?st3 = "?st1\<lparr>chat_session := map (\<lambda>x. if id_cs x = sid
                        then set_data (Some ACTIVE) (Some (active_at io)) x else x) (chat_session ?st1)\<rparr>"
  have f1: "chatSession_findUnique ?st1 sid = Some session"
    using ses(1) by (simp add: findUnique_messages)
  have u: "chatSession_update ?st1 sid (Some ACTIVE) (Some (active_at io)) =
             Inr (set_data (Some ACTIVE) (Some (active_at io)) session, ?st3)"
    using update_Some [OF f1] by simp
  have b: "brain_request ?st3 sid c (metadata_in payload) = brain_request ?st1 sid c (metadata_in payload)"
    by (rule brain_request_messages) simp
  show ?thesis
    using res con ses u b
    by (simp add: on_message_def Let_def chatMessage_create_def commit_def io_to_emit_def emit_def
        room_simps user_row_def bot_row_def message_failed_def socket_emit_def
        split: json.splits)
qed

text \<open>
  Claim C6, with the order of the checks the code has. The identifier of an event is its
  override or, when it has none, the identifier bound to the connection. When that
  identifier is missing or the empty string (so with no override and no bound identifier,
  and also with an empty override on a bound connection) the handler emits one error event
  to the connection and nothing else changes. Otherwise, with a content that is missing or
  trims to empty, nothing happens at all. Otherwise, with a session that is missing or
  CLOSED, the handler emits one status event with CLOSED to the connection and nothing
  else changes.
\<close>

theorem message_event_guards:
  "(nullish (sessionId_in payload) (sessionId (socket_data srv k)) = None \<or>
    nullish (sessionId_in payload) (sessionId (socket_data srv k)) = Some [] \<longrightarrow>
      on_message k payload io srv =
        srv\<lparr>trace := trace srv @ [Emit [k] (Ev_error ''Session not established yet.'')]\<rparr>) \<and>
   (nullish (sessionId_in payload) (sessionId (socket_data srv k)) = None \<longleftrightarrow>
      sessionId_in payload = None \<and> sessionId (socket_data srv k) = None) \<and>
   (nullish (sessionId_in payload) (sessionId (socket_data srv k)) = Some [] \<longleftrightarrow>
      sessionId_in payload = Some [] \<or>
      sessionId_in payload = None \<and> sessionId (socket_data srv k) = Some []) \<and>
   (nullish (sessionId_in payload) (sessionId (socket_data srv k)) = Some sid \<and> sid \<noteq> [] \<and>
    (content_in payload = None \<or> (\<exists>raw. content_in payload = Some raw \<and> trim raw = [])) \<longrightarrow>
      on_message k payload io srv = srv) \<and>
   (nullish (sessionId_in payload) (sessionId (socket_data srv k)) = Some sid \<and> sid \<noteq> [] \<and>
    (\<exists>raw. content_in payload = Some raw \<and> trim raw \<noteq> []) \<and>
    (chatSession_findUnique (db srv) sid = None \<or>
     (\<exists>s. chatSession_findUnique (db srv) sid = Some s \<and> status s = CLOSED)) \<longrightarrow>
      on_message k payload io srv = srv\<lparr>trace := trace srv @ [Emit [k] (Ev_status CLOSED)]\<rparr>)"
  by (auto simp: on_message_def nullish_def socket_emit_def emit_def split: option.splits)

text \<open>
  The guards at work: a message on a connection with no session, a message with an empty
  override on a bound connection, a blank message on a bound connection, and a message for
  a closed session.
\<close>

theorem message_event_guards_witness:
  "on_message 1 (payload_of None ''hello'') (io_with post_hi) (server_unbound store_fresh) =
     (server_unbound store_fresh)\<lparr>trace := trace (server_unbound store_fresh) @
        [Emit [1] (Ev_error ''Session not established yet.'')]\<rparr> \<and>
   sessionId (socket_data (server_bound store_fresh) 1) = Some ''s1'' \<and>
   on_message 1 (payload_of (Some []) ''hello'') (io_with post_hi) (server_bound store_fresh) =
     (server_bound store_fresh)\<lparr>trace := trace (server_bound store_fresh) @
        [Emit [1] (Ev_error ''Session not established yet.'')]\<rparr> \<and>
   trim ''  '' = [] \<and>
   on_message 1 (payload_of None ''  '') (io_with post_hi) (server_bound store_fresh) =
     server_bound store_fresh \<and>
   chatSession_findUnique (db (server_bound store_closed)) ''s1'' = Some (session_of ''s1'' CLOSED 5000) \<and>
   on_message 1 (payload_of None ''hello'') (io_with post_hi) (server_bound store_closed) =
     (server_bound store_closed)\<lparr>trace := trace (server_bound store_closed) @
        [Emit [1] (Ev_status CLOSED)]\<rparr>"
proof -
  have a: "nullish (sessionId_in (payload_of None ''hello''))
      (sessionId (socket_data (server_unbound store_fresh) 1)) = None"
    by (simp add: payload_of_def server_unbound_def nullish_def)
  have e: "nullish (sessionId_in (payload_of (Some []) ''hello''))
      (sessionId (socket_data (server_bound store_fresh) 1)) = Some []"
    "sessionId (socket_data (server_bound store_fresh) 1) = Some ''s1''"
    by (simp_all add: payload_of_def server_bound_def nullish_def)
  have t: "trim ''  '' = []" "trim ''hello'' \<noteq> []"
    by (simp_all add: trim_def is_space_def)
  have b: "nullish (sessionId_in (payload_of None ''  '')) (sessionId (socket_data (server_bound store_fresh) 1)) = Some ''s1'' \<and>
      ''s1'' \<noteq> [] \<and>
      (content_in (payload_of None ''  '') = None \<or>
       (\<exists>raw. content_in (payload_of None ''  '') = Some raw \<and> trim raw = []))"
    using t by (simp add: payload_of_def server_bound_def nullish_def)
  have f: "chatSession_findUnique (db (server_bound store_closed)) ''s1'' =
      Some (session_of ''s1'' CLOSED 5000)"
    by (simp add: server_bound_def store_closed_def chatSession_findUnique_def session_of_def)
  have c: "nullish (sessionId_in (payload_of None ''hello'')) (sessionId (socket_data (server_bound store_closed) 1)) = Some ''s1'' \<and>
      ''s1'' \<noteq> [] \<and>
      (\<exists>raw. content_in (payload_of None ''hello'') = Some raw \<and> trim raw \<noteq> []) \<and>
      (chatSession_findUnique (db (server_bound store_closed)) ''s1'' = None \<or>
       (\<exists>s. chatSession_findUnique (db (server_bound store_closed)) ''s1'' = Some s \<and> status s = CLOSED))"
    using t f by (simp add: payload_of_def server_bound_def nullish_def session_of_def)
  have g1: "on_message 1 (payload_of None ''hello'') (io_with post_hi) (server_unbound store_fresh) =
     (server_unbound store_fresh)\<lparr>trace := trace (server_unbound store_fresh) @
        [Emit [1] (Ev_error ''Session not established yet.'')]\<rparr>"
    using a message_event_guards [where payload = "payload_of None ''hello''"
        and srv = "server_unbound store_fresh" and k = 1 and io = "io_with post_hi" and sid = "''s1''"]
    by blast
  have g2: "on_message 1 (payload_of (Some []) ''hello'') (io_with post_hi) (server_bound store_fresh) =
     (server_bound store_fresh)\<lparr>trace := trace (server_bound store_fresh) @
        [Emit [1] (Ev_error ''Session not established yet.'')]\<rparr>"
    using e(1) message_event_guards [where payload = "payload_of (Some []) ''hello''"
        and srv = "server_bound store_fresh" and k = 1 and io = "io_with post_hi" and sid = "''s1''"]
    by blast
  have g3: "on_message 1 (payload_of None ''  '') (io_with post_hi) (server_bound store_fresh) =
     server_bound store_fresh"
    using b message_event_guards [where payload = "payload_of None ''  ''"
        and srv = "server_bound store_fresh" and k = 1 and io = "io_with post_hi" and sid = "''s1''"]
    by blast
  have g4: "on_message 1 (payload_of None ''hello'') (io_with post_hi) (server_bound store_closed) =
     (server_bound store_closed)\<lparr>trace := trace (server_bound store_closed) @
        [Emit [1] (Ev_status CLOSED)]\<rparr>"
    using c message_event_guards [where payload = "payload_of None ''hello''"
        and srv = "server_bound store_closed" and k = 1 and io = "io_with post_hi" and sid = "''s1''"]
    by blast
  show ?thesis
    using g1 g2 g3 g4 e(2) t(1) f by (simp only: simp_thms)
qed

text \<open>
  Claim C6 as the spec states it fails where its conditions overlap. A blank message on a
  connection with no session is answered with an error event; a blank message for a closed
  session is dropped with no status event.
\<close>

theorem blank_message_without_session_is_an_error:
  "trim ''  '' = [] \<and>
   emitted (trace (on_message 1 (payload_of None ''  '') (io_with post_hi)
       (server_unbound store_fresh))) = [([1], Ev_error ''Session not established yet.'')] \<and>
   chatSession_findUnique (db (server_bound store_closed)) ''s1'' = Some (session_of ''s1'' CLOSED 5000) \<and>
   emitted (trace (on_message 1 (payload_of None ''  '') (io_with post_hi)
       (server_bound store_closed))) = []"
  by (simp add: on_message_def payload_of_def server_unbound_def server_bound_def nullish_def
      trim_def is_space_def socket_emit_def emit_def store_closed_def chatSession_findUnique_def
      session_of_def)



text \<open>
  Claim C4 fails on the code. A session has 50 messages, created at the instants 0 to 49,
  and the message hello arrives at instant 6000. The session then has 51 rows; the history
  handed to the n8n client is the rows created at the instants 0 to 49, the oldest 50,
  without the message that has just arrived. A webhook that answers with the content of
  the last entry of the history it is sent answers old, not hello.
\<close>

theorem brain_window_is_the_oldest_50:
  "length (chatMessage_findMany ((store_long 50)\<lparr>chat_message := chat_message (store_long 50) @
       [user_row (io_with post_last) ''s1'' ''hello'']\<rparr>) ''s1'' None) = 51 \<and>
   map createdAt_he (history_p (brain_request ((store_long 50)\<lparr>chat_message :=
       chat_message (store_long 50) @ [user_row (io_with post_last) ''s1'' ''hello'']\<rparr>)
       ''s1'' ''hello'' None)) = map int [0..<50] \<and>
   createdAt (mapMessage (user_row (io_with post_last) ''s1'' ''hello'')) = 6000 \<and>
   map content (persisted (trace (on_message 1 (payload_of None ''hello'') (io_with post_last)
       (server_bound (store_long 50))))) = [''hello'', ''old'']"
proof -
  let ?st1 = "(store_long 50)\<lparr>chat_message := chat_message (store_long 50) @
       [user_row (io_with post_last) ''s1'' ''hello'']\<rparr>"
  have window: "getHistory ?st1 ''s1'' 50 = map mapMessage (map old_message [0..<50])"
    by (simp add: getHistory_take long_rows_snoc user_row_def io_with_def)
  have w: "history_p (brain_request ?st1 ''s1'' ''hello'' None) =
      map (\<lambda>i. \<lparr>sender_he = USER, content_he = ''old'', createdAt_he = int i\<rparr>) [0..<50]"
    by (simp add: brain_request_def window mapMessage_def old_message_def o_def)
  have l: "rev (map (\<lambda>i. \<lparr>sender_he = USER, content_he = ''old'', createdAt_he = int i\<rparr>) [0..<50]) =
      \<lparr>sender_he = USER, content_he = ''old'', createdAt_he = 49\<rparr> #
      rev (map (\<lambda>i. \<lparr>sender_he = USER, content_he = ''old'', createdAt_he = int i\<rparr>) [0..<49])"
  proof -
    have "[0..<Suc 49] = [0..<49] @ [49]" by (rule upt_Suc_append) simp
    moreover have "(50::nat) = Suc 49" by simp
    ultimately have "[0..<50] = [0..<49] @ [49]" by (simp only:)
    then show ?thesis
      by (simp only: map_append rev_append list.map rev.simps append.simps of_nat_numeral)
  qed
  have pio: "post (io_with post_last) = post_last" by (simp add: io_with_def)
  have r: "sendToN8n (post (io_with post_last)) (stringify (io_with post_last))
             (brain_request ?st1 ''s1'' ''hello'' None) = JStr ''old''"
    by (simp add: sendToN8n_def n8n_body_of_def pio post_last_def w l property_def coalesce_def
        del: upt_Suc)
  have res: "nullish (sessionId_in (payload_of None ''hello''))
      (sessionId (socket_data (server_bound (store_long 50)) 1)) = Some ''s1''" "''s1'' \<noteq> []"
    by (simp_all add: payload_of_def server_bound_def nullish_def)
  have con: "content_in (payload_of None ''hello'') = Some ''hello''" "trim ''hello'' = ''hello''"
    "''hello'' \<noteq> []"
    by (simp_all add: payload_of_def trim_def is_space_def)
  have ses: "chatSession_findUnique (db (server_bound (store_long 50))) ''s1'' =
      Some (session_of ''s1'' ACTIVE 0)" "status (session_of ''s1'' ACTIVE 0) \<noteq> CLOSED"
    by (simp_all add: server_bound_def store_long_def chatSession_findUnique_def session_of_def)
  have db: "db (server_bound (store_long 50)) = store_long 50" by (simp add: server_bound_def)
  have md: "metadata_in (payload_of None ''hello'') = None" by (simp add: payload_of_def)
  have p: "persisted (trace (on_message 1 (payload_of None ''hello'') (io_with post_last)
       (server_bound (store_long 50)))) =
       [user_row (io_with post_last) ''s1'' ''hello'', bot_row (io_with post_last) ''s1'' ''old'']"
    using on_message_accepted [OF res con ses, of "io_with post_last"] r
    by (simp add: Let_def db md server_bound_def)
  show ?thesis
    apply (intro conjI)
    subgoal by (simp add: long_rows_snoc user_row_def io_with_def)
    subgoal by (simp add: w o_def del: upt_Suc)
    subgoal by (simp add: mapMessage_def user_row_def io_with_def)
    subgoal using p by (simp add: user_row_def bot_row_def)
    done
qed

section \<open>The n8n client\<close>

lemma coalesce_present: "a = Some v \<Longrightarrow> v \<noteq> JNull \<Longrightarrow> coalesce a b = v"
  by (cases v) (simp_all add: coalesce_def)

lemma coalesce_absent: "a = None \<or> a = Some JNull \<Longrightarrow> coalesce a b = b"
  by (auto simp: coalesce_def)

text \<open>
  What the client returns, case by case: the apology when the call fails; otherwise the
  first of the properties output, text and message that is neither undefined nor null,
  whatever its type; otherwise the response itself when it is a string and its JSON
  rendering when it is not. In every case there is a value: nothing is thrown.
\<close>

lemma sendToN8n_cases:
  "(webhook (n8n_body_of payload) = Rejected \<longrightarrow>
      sendToN8n webhook to_json payload = JStr apology) \<and>
   (webhook (n8n_body_of payload) = Resolved data \<longrightarrow>
      (\<forall>v. property data ''output'' = Some v \<and> v \<noteq> JNull \<longrightarrow>
         sendToN8n webhook to_json payload = v) \<and>
      (property data ''output'' \<in> {None, Some JNull} \<longrightarrow>
         (\<forall>v. property data ''text'' = Some v \<and> v \<noteq> JNull \<longrightarrow>
            sendToN8n webhook to_json payload = v) \<and>
         (property data ''text'' \<in> {None, Some JNull} \<longrightarrow>
            (\<forall>v. property data ''message'' = Some v \<and> v \<noteq> JNull \<longrightarrow>
               sendToN8n webhook to_json payload = v) \<and>
            (property data ''message'' \<in> {None, Some JNull} \<longrightarrow>
               sendToN8n webhook to_json payload =
                 (case data of JStr s \<Rightarrow> JStr s | _ \<Rightarrow> JStr (to_json data))))))"
proof (cases "webhook (n8n_body_of payload)")
  case Rejected
  then show ?thesis by (simp add: sendToN8n_def)
next
  case (Resolved d)
  then have "sendToN8n webhook to_json payload =
      coalesce (property d ''output'')
        (coalesce (property d ''text'')
           (coalesce (property d ''message'')
              (case d of JStr s \<Rightarrow> JStr s | _ \<Rightarrow> JStr (to_json d))))"
    by (simp add: sendToN8n_def)
  with Resolved show ?thesis
    by (auto simp: coalesce_present coalesce_absent)
qed

text \<open>
  Claim C8 fails on the code. The webhook answers with the object whose output is the
  number 42: \<^verbatim>\<open>sendToN8n\<close> returns the number 42, not a string. In the message
  handler \<^verbatim>\<open>aiReply.substring\<close> then throws: the USER message has been persisted and
  broadcast, the sender gets an error event, and no BOT message is persisted.
\<close>

theorem sendToN8n_returns_a_number:
  "sendToN8n post_number to_json payload = JNum 42 \<and>
   emitted (trace (on_message 1 (payload_of None ''hello'') (io_with post_number)
       (server_bound store_fresh))) =
     [([1, 2], Ev_message \<lparr>id_dto = ''u1'', sender = USER, content_dto = ''hello'', createdAt = 6000\<rparr>),
      ([1], Ev_error ''Unable to send message right now. Please try again.'')] \<and>
   map role (persisted (trace (on_message 1 (payload_of None ''hello'') (io_with post_number)
       (server_bound store_fresh)))) = [USER]"
  by (simp add: sendToN8n_def post_number_def property_def coalesce_def
      on_message_def nullish_def server_bound_def store_fresh_def
      chatSession_update_def chatSession_findUnique_def session_of_def socket_emit_def emit_def
      payload_of_def trim_def is_space_def Let_def chatMessage_create_def commit_def io_to_emit_def
      set_data_def io_with_def message_failed_def room_def mapMessage_def)

section \<open>The end of a session\<close>

lemma on_endSession_found:
  assumes res: "nullish payload_sessionId (sessionId (socket_data srv k)) = Some sid" "sid \<noteq> []"
    and ses: "chatSession_findUnique (db srv) sid = Some session"
  shows "on_endSession k payload_sessionId io srv =
     srv\<lparr>db := (db srv)\<lparr>chat_session := map (\<lambda>x. if id_cs x = sid
                       then set_data (Some CLOSED) (Some (closed_at io)) x else x) (chat_session (db srv)),
                    chat_message := chat_message (db srv) @ [system_row io sid]\<rparr>,
         socket_rooms := (socket_rooms srv)(k := socket_rooms srv k - {sid}),
         socket_data := (socket_data srv)(k := (socket_data srv k)\<lparr>sessionId := None\<rparr>),
         trace := trace srv @
           [Db_session_update sid (Some CLOSED) (Some (closed_at io)),
            Db_message_create (system_row io sid),
            Emit [k] (Ev_sessionClosed sid
                        ''Session ended successfully. You can start a new conversation.''),
            Leave k sid,
            Set_data k ((socket_data srv k)\<lparr>sessionId := None\<rparr>)]\<rparr>"
  using res update_Some [OF ses, of "Some CLOSED" "Some (closed_at io)"]
  by (simp add: on_endSession_def Let_def commit_def chatMessage_create_def socket_emit_def emit_def
      socket_leave_def set_socket_data_def system_row_def)

text \<open>
  Claim C9, for a session that exists. An endSession event whose identifier resolves and
  finds a session: the handler sets the status CLOSED with the new last-activity, appends
  the SYSTEM row, emits sessionClosed to the connection, leaves the room and clears the
  bound identifier, in this order and nothing else; a message event that follows on the
  connection with no override is answered with the error of an unresolvable session and
  changes nothing else. When the identifier finds no session the update fails: the handler
  emits one error event and does nothing else. With no resolvable identifier the handler
  does nothing.
\<close>

theorem endSession_closes_and_unbinds:
  "(nullish payload_sessionId (sessionId (socket_data srv k)) = Some sid \<and> sid \<noteq> [] \<and>
    chatSession_findUnique (db srv) sid = Some session \<longrightarrow>
      (let srv' = on_endSession k payload_sessionId io srv
       in trace srv' = trace srv @
            [Db_session_update sid (Some CLOSED) (Some (closed_at io)),
             Db_message_create (system_row io sid),
             Emit [k] (Ev_sessionClosed sid
                         ''Session ended successfully. You can start a new conversation.''),
             Leave k sid,
             Set_data k ((socket_data srv k)\<lparr>sessionId := None\<rparr>)] \<and>
          chatSession_findUnique (db srv') sid =
            Some (session\<lparr>status := CLOSED, last_active_at := closed_at io\<rparr>) \<and>
          chat_message (db srv') = chat_message (db srv) @ [system_row io sid] \<and>
          sessionId (socket_data srv' k) = None \<and> sid \<notin> socket_rooms srv' k \<and>
          (\<forall>c md mio.
             on_message k \<lparr>sessionId_in = None, content_in = c, metadata_in = md\<rparr> mio srv' =
               srv'\<lparr>trace := trace srv' @ [Emit [k] (Ev_error ''Session not established yet.'')]\<rparr>))) \<and>
   (nullish payload_sessionId (sessionId (socket_data srv k)) = Some sid \<and> sid \<noteq> [] \<and>
    chatSession_findUnique (db srv) sid = None \<longrightarrow>
      on_endSession k payload_sessionId io srv =
        srv\<lparr>trace := trace srv @ [Emit [k] (Ev_error ''Failed to end session. Please try again.'')]\<rparr>) \<and>
   (nullish payload_sessionId (sessionId (socket_data srv k)) = None \<or>
    nullish payload_sessionId (sessionId (socket_data srv k)) = Some [] \<longrightarrow>
      on_endSession k payload_sessionId io srv = srv)"
proof (intro conjI impI)
  assume a: "nullish payload_sessionId (sessionId (socket_data srv k)) = Some sid \<and> sid \<noteq> [] \<and>
    chatSession_findUnique (db srv) sid = Some session"
  let ?srv' = "on_endSession k payload_sessionId io srv"
  have g: "\<And>x. id_cs (set_data (Some CLOSED) (Some (closed_at io)) x) = id_cs x"
    by (simp add: set_data_def)
  have eq: "?srv' = srv\<lparr>db := (db srv)\<lparr>chat_session := map (\<lambda>x. if id_cs x = sid
                       then set_data (Some CLOSED) (Some (closed_at io)) x else x) (chat_session (db srv)),
                    chat_message := chat_message (db srv) @ [system_row io sid]\<rparr>,
         socket_rooms := (socket_rooms srv)(k := socket_rooms srv k - {sid}),
         socket_data := (socket_data srv)(k := (socket_data srv k)\<lparr>sessionId := None\<rparr>),
         trace := trace srv @
           [Db_session_update sid (Some CLOSED) (Some (closed_at io)),
            Db_message_create (system_row io sid),
            Emit [k] (Ev_sessionClosed sid
                        ''Session ended successfully. You can start a new conversation.''),
            Leave k sid,
            Set_data k ((socket_data srv k)\<lparr>sessionId := None\<rparr>)]\<rparr>"
    using a on_endSession_found by blast
  have f: "chatSession_findUnique (db ?srv') sid =
            Some (session\<lparr>status := CLOSED, last_active_at := closed_at io\<rparr>)"
    using a findUnique_map_same [of "set_data (Some CLOSED) (Some (closed_at io))" "db srv" sid session, OF g]
    by (simp add: eq chatSession_findUnique_def set_data_def)
  have unbound: "sessionId (socket_data ?srv' k) = None"
    by (simp add: eq)
  have rej: "on_message k \<lparr>sessionId_in = None, content_in = c, metadata_in = md\<rparr> mio ?srv' =
             ?srv'\<lparr>trace := trace ?srv' @ [Emit [k] (Ev_error ''Session not established yet.'')]\<rparr>"
    for c md mio
    using unbound by (simp add: on_message_def nullish_def socket_emit_def emit_def)
  show "let srv' = on_endSession k payload_sessionId io srv
       in trace srv' = trace srv @
            [Db_session_update sid (Some CLOSED) (Some (closed_at io)),
             Db_message_create (system_row io sid),
             Emit [k] (Ev_sessionClosed sid
                         ''Session ended successfully. You can start a new conversation.''),
             Leave k sid,
             Set_data k ((socket_data srv k)\<lparr>sessionId := None\<rparr>)] \<and>
          chatSession_findUnique (db srv') sid =
            Some (session\<lparr>status := CLOSED, last_active_at := closed_at io\<rparr>) \<and>
          chat_message (db srv') = chat_message (db srv) @ [system_row io sid] \<and>
          sessionId (socket_data srv' k) = None \<and> sid \<notin> socket_rooms srv' k \<and>
          (\<forall>c md mio.
             on_message k \<lparr>sessionId_in = None, content_in = c, metadata_in = md\<rparr> mio srv' =
               srv'\<lparr>trace := trace srv' @ [Emit [k] (Ev_error ''Session not established yet.'')]\<rparr>)"
    unfolding Let_def
    apply (intro conjI allI)
    subgoal by (simp add: eq)
    subgoal by (rule f)
    subgoal by (simp add: eq)
    subgoal by (rule unbound)
    subgoal by (simp add: eq)
    subgoal by (rule rej)
    done
next
  assume "nullish payload_sessionId (sessionId (socket_data srv k)) = Some sid \<and> sid \<noteq> [] \<and>
    chatSession_findUnique (db srv) sid = None"
  then show "on_endSession k payload_sessionId io srv =
        srv\<lparr>trace := trace srv @ [Emit [k] (Ev_error ''Failed to end session. Please try again.'')]\<rparr>"
    by (simp add: on_endSession_def update_None socket_emit_def emit_def)
next
  assume "nullish payload_sessionId (sessionId (socket_data srv k)) = None \<or>
    nullish payload_sessionId (sessionId (socket_data srv k)) = Some []"
  then show "on_endSession k payload_sessionId io srv = srv"
    by (auto simp: on_endSession_def)
qed

text \<open>
  The end of the fresh session on its bound connection: the session is closed at instant
  9000, the SYSTEM row is the one message of the store, and the connection is unbound.
\<close>

theorem endSession_closes_and_unbinds_witness:
  "nullish None (sessionId (socket_data (server_bound store_fresh) 1)) = Some ''s1'' \<and>
   chatSession_findUnique (db (server_bound store_fresh)) ''s1'' = Some (session_of ''s1'' ACTIVE 5000) \<and>
   chatSession_findUnique (db (on_endSession 1 None io_end (server_bound store_fresh))) ''s1'' =
     Some (session_of ''s1'' CLOSED 9000) \<and>
   chat_message (db (on_endSession 1 None io_end (server_bound store_fresh))) =
     [system_row io_end ''s1''] \<and>
   sessionId (socket_data (on_endSession 1 None io_end (server_bound store_fresh)) 1) = None"
proof -
  have h: "nullish None (sessionId (socket_data (server_bound store_fresh) 1)) = Some ''s1'' \<and>
      ''s1'' \<noteq> [] \<and>
      chatSession_findUnique (db (server_bound store_fresh)) ''s1'' = Some (session_of ''s1'' ACTIVE 5000)"
    by (simp add: server_bound_def nullish_def store_fresh_def chatSession_findUnique_def
        session_of_def)
  from endSession_closes_and_unbinds [where payload_sessionId = None
      and srv = "server_bound store_fresh" and k = 1 and sid = "''s1''"
      and session = "session_of ''s1'' ACTIVE 5000" and io = io_end] h
  show ?thesis
    by (simp add: Let_def session_of_def io_end_def server_bound_def store_fresh_def)
qed

text \<open>
  Claim C9 as the spec states it fails for an identifier that resolves and finds no
  session. The connection is bound to s1 and sends endSession with the identifier ghost:
  the handler emits an error event and does nothing else, the connection stays bound to
  s1, and the message that follows with no override is accepted for s1.
\<close>

theorem endSession_of_unknown_session_keeps_binding:
  "nullish (Some ''ghost'') (sessionId (socket_data (server_bound store_fresh) 1)) = Some ''ghost'' \<and>
   on_endSession 1 (Some ''ghost'') io_end (server_bound store_fresh) =
     (server_bound store_fresh)\<lparr>trace := [Emit [1] (Ev_error ''Failed to end session. Please try again.'')]\<rparr> \<and>
   sessionId (socket_data (on_endSession 1 (Some ''ghost'') io_end (server_bound store_fresh)) 1) =
     Some ''s1'' \<and>
   map content (persisted (trace (on_message 1 (payload_of None ''hello'') (io_with post_hi)
       (on_endSession 1 (Some ''ghost'') io_end (server_bound store_fresh))))) = [''hello'', ''hi'']"
  by (simp add: on_endSession_def on_message_def nullish_def server_bound_def store_fresh_def
      chatSession_update_def chatSession_findUnique_def session_of_def socket_emit_def emit_def
      payload_of_def trim_def is_space_def Let_def chatMessage_create_def commit_def io_to_emit_def
      set_data_def io_with_def sendToN8n_def post_hi_def property_def coalesce_def)

section \<open>A closed session\<close>

text \<open>
  Claim C1 fails on the code. Session s1 is CLOSED and was last active at instant 5000.
  A heartbeat event at instant 9000 on a connection bound to it makes it ACTIVE with
  last-activity 9000; the heartbeat route leaves it CLOSED and moves its last-activity to
  9000; an endSession event leaves it CLOSED and moves its last-activity to 9000.
\<close>

theorem heartbeat_reopens_closed_session:
  "chat_session (db (server_bound store_closed)) = [session_of ''s1'' CLOSED 5000] \<and>
   chat_session (db (on_heartbeat 1 None 9000 (server_bound store_closed))) =
     [session_of ''s1'' ACTIVE 9000] \<and>
   patch_heartbeat store_closed ''s1'' 9000 =
     (Ok_heartbeat ''s1'' 9000 CLOSED,
      store_closed\<lparr>chat_session := [session_of ''s1'' CLOSED 9000]\<rparr>) \<and>
   chat_session (db (on_endSession 1 None io_end (server_bound store_closed))) =
     [session_of ''s1'' CLOSED 9000]"
  by (simp add: on_heartbeat_def patch_heartbeat_def on_endSession_def server_bound_def
      store_closed_def session_of_def nullish_def chatSession_update_def chatSession_findUnique_def
      set_data_def commit_def io_end_def Let_def chatMessage_create_def socket_emit_def emit_def
      socket_leave_def set_socket_data_def)

end
